theory Spec2Isabelle
  imports Complex_Main
begin

section \<open>VitalViz: sampling, rate derivation, bounded histories and alerts\<close>

text \<open>
  The three front-ends (\<^verbatim>\<open>system_dashboard.py\<close>, \<^verbatim>\<open>system_dashboard_gui.py\<close>,
  \<^verbatim>\<open>vitalviz_gui.py\<close>) are embedded as pure functions over an explicit monitor state.
  Python floats are modelled as exact rationals: every finite float is a rational number,
  and the roundings of float arithmetic are left out. Python exceptions are values of
  type \<open>error\<close>. What the operating system reports in one pass of a loop (clock, CPU
  load, memory, network counters) is an input, a \<open>reading\<close>.
\<close>

subsection \<open>Exceptions and division\<close>

datatype error = ZeroDivisionError | IndexError

text \<open>Python's \<^verbatim>\<open>a / b\<close> on numbers: raises ZeroDivisionError when \<^verbatim>\<open>b\<close> is zero.\<close>

definition true_div :: "rat \<Rightarrow> rat \<Rightarrow> error + rat" where
  "true_div a b = (if b = 0 then Inl ZeroDivisionError else Inr (a / b))"

subsection \<open>Formatting with two decimals (\<^verbatim>\<open>f"{x:.2f}"\<close>)\<close>

definition digit_char :: "nat \<Rightarrow> char" where
  "digit_char d = ''0123456789'' ! d"

fun str_nat :: "nat \<Rightarrow> string" where
  "str_nat n = (if n < 10 then [digit_char n] else str_nat (n div 10) @ [digit_char (n mod 10)])"

declare str_nat.simps [simp del]

text \<open>Rounding to the nearest integer, ties to the even one, as the format does.\<close>

definition round_half_even :: "rat \<Rightarrow> int" where
  "round_half_even x =
     (let f = \<lfloor>x\<rfloor>; r = x - of_int f
      in if r < 1 / 2 then f else if 1 / 2 < r then f + 1 else if even f then f else f + 1)"

text \<open>The number a value is displayed as, counted in hundredths.\<close>

definition hundredths :: "rat \<Rightarrow> nat" where
  "hundredths x = nat (round_half_even (\<bar>x\<bar> * 100))"

definition format_2f :: "rat \<Rightarrow> string" where
  "format_2f x =
     (let h = hundredths x
      in (if x < 0 then ''-'' else '''') @ str_nat (h div 100) @ ''.'' @
         [digit_char (h mod 100 div 10), digit_char (h mod 10)])"

subsection \<open>\<^verbatim>\<open>size_formatter\<close> (system_dashboard.py, lines 59-65)\<close>

text \<open>
  The \<^verbatim>\<open>for unit in [...]\<close> loop: return at the first unit where the value is below
  1024, divide by 1024 otherwise; after the loop the unit is PB.
\<close>

fun size_loop :: "string list \<Rightarrow> rat \<Rightarrow> string" where
  "size_loop [] bytes_value = format_2f bytes_value @ '' PB''"
| "size_loop (unit # units) bytes_value =
     (if bytes_value < 1024 then format_2f bytes_value @ '' '' @ unit
      else size_loop units (bytes_value / 1024))"

definition size_formatter :: "rat \<Rightarrow> string" where
  "size_formatter bytes_value = size_loop [''B'', ''KB'', ''MB'', ''GB'', ''TB''] bytes_value"

text \<open>
  The description of the result in words: \<open>k\<close> is the smallest index in 0..4 with
  \<open>v / 1024^k < 1024\<close>, or 5 when there is none; the unit is the \<open>k\<close>-th of the list.
\<close>

definition unit_names :: "string list" where
  "unit_names = [''B'', ''KB'', ''MB'', ''GB'', ''TB'', ''PB'']"

definition unit_index :: "rat \<Rightarrow> nat" where
  "unit_index v = (case List.find (\<lambda>k. v / 1024 ^ k < 1024) [0, 1, 2, 3, 4] of
                     Some k \<Rightarrow> k | None \<Rightarrow> 5)"

subsection \<open>Network counters and per-second rates\<close>

record net_io =
  bytes_sent :: int
  bytes_recv :: int
  packets_sent :: int
  packets_recv :: int

record network_table =
  bytes_sent_per_sec :: rat
  bytes_recv_per_sec :: rat
  packets_sent_per_sec :: rat
  packets_recv_per_sec :: rat

text \<open>
  \<^verbatim>\<open>generate_network_table\<close> (system_dashboard.py, lines 131-163): the four per-second
  values of the table, in the order the function computes them (lines 139, 140, 155, 160).
  The rendering of the cells is left out.
\<close>

definition generate_network_table :: "net_io \<Rightarrow> net_io \<Rightarrow> rat \<Rightarrow> error + network_table" where
  "generate_network_table prev current time_diff =
     (case true_div (of_int (bytes_sent current - bytes_sent prev)) time_diff of
        Inl e \<Rightarrow> Inl e
      | Inr bs \<Rightarrow>
     (case true_div (of_int (bytes_recv current - bytes_recv prev)) time_diff of
        Inl e \<Rightarrow> Inl e
      | Inr br \<Rightarrow>
     (case true_div (of_int (packets_sent current - packets_sent prev)) time_diff of
        Inl e \<Rightarrow> Inl e
      | Inr ps \<Rightarrow>
     (case true_div (of_int (packets_recv current - packets_recv prev)) time_diff of
        Inl e \<Rightarrow> Inl e
      | Inr pr \<Rightarrow>
          Inr \<lparr>bytes_sent_per_sec = bs, bytes_recv_per_sec = br,
               packets_sent_per_sec = ps, packets_recv_per_sec = pr\<rparr>))))"

subsection \<open>What one pass of a loop reads from the system\<close>

record reading =
  current_time :: rat
  cpu_usage :: "rat list"
  memory_percent :: rat
  current_net_io :: net_io
  clock_text :: string

subsection \<open>The terminal loop (system_dashboard.py, \<^verbatim>\<open>main\<close>, lines 185-238)\<close>

text \<open>
  The loop state is \<^verbatim>\<open>(prev_net_io, prev_time)\<close>, read once before the loop
  (lines 187-188). One pass computes the table against it and then replaces it. Only
  KeyboardInterrupt is caught, so an error ends the loop.
\<close>

definition main_iteration ::
  "reading \<Rightarrow> net_io \<times> rat \<Rightarrow> error + (network_table \<times> (net_io \<times> rat))" where
  "main_iteration r st =
     (let time_diff = current_time r - snd st
      in case generate_network_table (fst st) (current_net_io r) time_diff of
           Inl e \<Rightarrow> Inl e
         | Inr t \<Rightarrow> Inr (t, (current_net_io r, current_time r)))"

subsection \<open>The monitor state of the two GUIs\<close>

record monitor =
  cpu_history :: "rat list list"
  memory_history :: "rat list"
  network_recv_history :: "rat list"
  network_sent_history :: "rat list"
  time_points :: "string list"
  prev_net_io :: net_io
  prev_time :: rat
  current_theme :: string
  update_interval :: int
  max_history :: int
  enable_notifications :: bool
  cpu_notified :: bool
  memory_notified :: bool
  notifications :: "(string \<times> string) list"

text \<open>
  \<open>cpu_notified\<close> and \<open>memory_notified\<close> stand for \<^verbatim>\<open>hasattr(self, ...)\<close>;
  \<open>notifications\<close> is the log of the \<^verbatim>\<open>notify(title, message)\<close> calls delivered so far.
  \<^verbatim>\<open>__init__\<close> (vitalviz_gui.py, lines 129-172; system_dashboard_gui.py, lines 45-54)
  reads the number of cores, the network counters and the clock once.
\<close>

definition init_monitor :: "nat \<Rightarrow> net_io \<Rightarrow> rat \<Rightarrow> monitor" where
  "init_monitor n_cores net t =
     \<lparr>cpu_history = replicate n_cores [], memory_history = [],
      network_recv_history = [], network_sent_history = [], time_points = [],
      prev_net_io = net, prev_time = t,
      current_theme = ''dark'', update_interval = 1, max_history = 60,
      enable_notifications = True, cpu_notified = False, memory_notified = False,
      notifications = []\<rparr>"

subsection \<open>Bounded histories\<close>

definition MAX_HISTORY :: nat where
  "MAX_HISTORY = 60"

text \<open>
  \<^verbatim>\<open>if len(h) >= MAX_HISTORY: h.pop(0)\<close> followed by \<^verbatim>\<open>h.append(v)\<close>. The list is not
  empty where \<^verbatim>\<open>pop(0)\<close> runs, so it is the tail.
\<close>

definition push :: "'a list \<Rightarrow> 'a \<Rightarrow> 'a list" where
  "push history v = (if MAX_HISTORY \<le> length history then tl history else history) @ [v]"

text \<open>
  The loop over \<^verbatim>\<open>enumerate(cpu_usage)\<close>: \<^verbatim>\<open>self.cpu_history[i]\<close> raises IndexError
  when there are more readings than histories; the histories pushed before stay pushed.
\<close>

fun cpu_loop :: "nat \<Rightarrow> rat list \<Rightarrow> rat list list \<Rightarrow> rat list list \<times> error option" where
  "cpu_loop i [] hs = (hs, None)"
| "cpu_loop i (usage # rest) hs =
     (if i < length hs then cpu_loop (Suc i) rest (hs[i := push (hs ! i) usage])
      else (hs, Some IndexError))"

text \<open>
  The network histories: the test reads the length of the send history only, and both
  lists are popped. \<^verbatim>\<open>pop(0)\<close> on an empty receive history raises IndexError after the
  send history has lost its first element.
\<close>

definition push_network :: "rat \<Rightarrow> rat \<Rightarrow> monitor \<Rightarrow> monitor \<times> error option" where
  "push_network sent_rate recv_rate s =
     (if MAX_HISTORY \<le> length (network_sent_history s) then
        (let s1 = s\<lparr>network_sent_history := tl (network_sent_history s)\<rparr>
         in case network_recv_history s1 of
              [] \<Rightarrow> (s1, Some IndexError)
            | _ # recv \<Rightarrow>
                (s1\<lparr>network_recv_history := recv @ [recv_rate],
                    network_sent_history := network_sent_history s1 @ [sent_rate]\<rparr>, None))
      else
        (s\<lparr>network_recv_history := network_recv_history s @ [recv_rate],
           network_sent_history := network_sent_history s @ [sent_rate]\<rparr>, None))"

text \<open>
  The part of \<^verbatim>\<open>update_data\<close> that both GUIs share (system_dashboard_gui.py, lines
  256-292; vitalviz_gui.py, lines 575-611): time points, CPU histories, memory history,
  the two rates, network histories. The result is the state as the statements left it
  and either the exception raised or the two rates.
\<close>

definition sample_histories :: "reading \<Rightarrow> monitor \<Rightarrow> monitor \<times> (error + rat \<times> rat)" where
  "sample_histories r s =
     (let time_diff = current_time r - prev_time s;
          s1 = s\<lparr>time_points := push (time_points s) (clock_text r)\<rparr>;
          cpu = cpu_loop 0 (cpu_usage r) (cpu_history s1);
          s2 = s1\<lparr>cpu_history := fst cpu\<rparr>
      in case snd cpu of
           Some e \<Rightarrow> (s2, Inl e)
         | None \<Rightarrow>
        (let s3 = s2\<lparr>memory_history := push (memory_history s2) (memory_percent r)\<rparr>
         in case true_div (of_int (bytes_sent (current_net_io r) - bytes_sent (prev_net_io s3)))
                   time_diff of
              Inl e \<Rightarrow> (s3, Inl e)
            | Inr sent_rate \<Rightarrow>
           (case true_div (of_int (bytes_recv (current_net_io r) - bytes_recv (prev_net_io s3)))
                   time_diff of
              Inl e \<Rightarrow> (s3, Inl e)
            | Inr recv_rate \<Rightarrow>
           (case push_network sent_rate recv_rate s3 of
              (s4, Some e) \<Rightarrow> (s4, Inl e)
            | (s4, None) \<Rightarrow> (s4, Inr (sent_rate, recv_rate))))))"

subsection \<open>The basic GUI loop (system_dashboard_gui.py, \<^verbatim>\<open>update_data\<close>, lines 251-305)\<close>

text \<open>
  One pass of the \<^verbatim>\<open>while self.running\<close> loop. Nothing catches an exception, so the
  thread ends at the first one: \<open>gui_update_data\<close> runs the passes of a list of readings
  and stops there.
\<close>

definition gui_tick :: "reading \<Rightarrow> monitor \<Rightarrow> monitor \<times> error option" where
  "gui_tick r s =
     (case sample_histories r s of
        (s', Inl e) \<Rightarrow> (s', Some e)
      | (s', Inr rates) \<Rightarrow>
          (s'\<lparr>prev_net_io := current_net_io r, prev_time := current_time r\<rparr>, None))"

fun gui_update_data :: "reading list \<Rightarrow> monitor \<Rightarrow> monitor \<times> error option" where
  "gui_update_data [] s = (s, None)"
| "gui_update_data (r # rs) s =
     (case gui_tick r s of
        (s', Some e) \<Rightarrow> (s', Some e)
      | (s', None) \<Rightarrow> gui_update_data rs s')"

subsection \<open>Threshold notifications (vitalviz_gui.py, lines 60-67 and 819-834)\<close>

definition notify :: "bool \<Rightarrow> string \<Rightarrow> string \<Rightarrow> monitor \<Rightarrow> monitor" where
  "notify available title message s =
     (if available then s\<lparr>notifications := notifications s @ [(title, message)]\<rparr> else s)"

definition cpu_alert :: "string \<times> string" where
  "cpu_alert = (''VitalViz Alert'', ''CPU usage is extremely high (>90%)'')"

definition memory_alert :: "string \<times> string" where
  "memory_alert = (''VitalViz Alert'', ''Memory usage is high (>85%)'')"

text \<open>
  \<^verbatim>\<open>sum(cpu_usage) / len(cpu_usage)\<close> raises ZeroDivisionError on an empty list, before
  anything is changed.
\<close>

definition check_thresholds :: "bool \<Rightarrow> rat list \<Rightarrow> rat \<Rightarrow> monitor \<Rightarrow> monitor \<times> error option" where
  "check_thresholds available usage mem_percent s =
     (case true_div (sum_list usage) (of_nat (length usage)) of
        Inl e \<Rightarrow> (s, Some e)
      | Inr avg_cpu \<Rightarrow>
         (let s1 = (if 90 < avg_cpu \<and> \<not> cpu_notified s then
                      (notify available (fst cpu_alert) (snd cpu_alert) s)\<lparr>cpu_notified := True\<rparr>
                    else if avg_cpu < 70 \<and> cpu_notified s then s\<lparr>cpu_notified := False\<rparr>
                    else s);
              s2 = (if 85 < mem_percent \<and> \<not> memory_notified s1 then
                      (notify available (fst memory_alert) (snd memory_alert) s1)
                        \<lparr>memory_notified := True\<rparr>
                    else if mem_percent < 75 \<and> memory_notified s1 then
                      s1\<lparr>memory_notified := False\<rparr>
                    else s1)
          in (s2, None)))"

subsection \<open>The feature-rich GUI loop (vitalviz_gui.py, \<^verbatim>\<open>update_data\<close>, lines 569-632)\<close>

text \<open>
  The body of the \<^verbatim>\<open>try\<close> block: the shared part, the threshold check when
  \<^verbatim>\<open>NOTIFICATIONS_AVAILABLE and self.enable_notifications\<close>, then the previous values.
  \<open>available\<close> is the module constant \<^verbatim>\<open>NOTIFICATIONS_AVAILABLE\<close>.
\<close>

definition vitalviz_try :: "bool \<Rightarrow> reading \<Rightarrow> monitor \<Rightarrow> monitor \<times> error option" where
  "vitalviz_try available r s =
     (case sample_histories r s of
        (s1, Inl e) \<Rightarrow> (s1, Some e)
      | (s1, Inr rates) \<Rightarrow>
         (case (if available \<and> enable_notifications s1
                then check_thresholds available (cpu_usage r) (memory_percent r) s1
                else (s1, None)) of
            (s2, Some e) \<Rightarrow> (s2, Some e)
          | (s2, None) \<Rightarrow>
              (s2\<lparr>prev_net_io := current_net_io r, prev_time := current_time r\<rparr>, None)))"

text \<open>
  \<^verbatim>\<open>except Exception as e: print(...)\<close>: the exception is dropped and the loop goes on
  with the state as it is.
\<close>

definition vitalviz_tick :: "bool \<Rightarrow> reading \<Rightarrow> monitor \<Rightarrow> monitor" where
  "vitalviz_tick available r s = fst (vitalviz_try available r s)"

fun vitalviz_update_data :: "bool \<Rightarrow> reading list \<Rightarrow> monitor \<Rightarrow> monitor" where
  "vitalviz_update_data available [] s = s"
| "vitalviz_update_data available (r # rs) s =
     vitalviz_update_data available rs (vitalviz_tick available r s)"

subsection \<open>Reset and settings (vitalviz_gui.py, lines 872-879 and 979-985)\<close>

text \<open>\<open>n_cores\<close> is \<^verbatim>\<open>len(get_cpu_usage_per_core())\<close> at the time of the reset.\<close>

definition reset_graphs :: "nat \<Rightarrow> monitor \<Rightarrow> monitor" where
  "reset_graphs n_cores s =
     s\<lparr>cpu_history := replicate n_cores [], memory_history := [],
       network_recv_history := [], network_sent_history := [], time_points := []\<rparr>"

definition save_settings :: "string \<Rightarrow> int \<Rightarrow> int \<Rightarrow> bool \<Rightarrow> monitor \<Rightarrow> monitor" where
  "save_settings theme interval history notifications_on s =
     s\<lparr>current_theme := theme, update_interval := interval, max_history := history,
       enable_notifications := notifications_on\<rparr>"

text \<open>All the series of a monitor state, for statements about every one of them.\<close>

definition series_lengths :: "monitor \<Rightarrow> nat list" where
  "series_lengths s =
     map length (cpu_history s) @
     [length (memory_history s), length (network_sent_history s),
      length (network_recv_history s), length (time_points s)]"

subsection \<open>Readings for concrete runs\<close>

text \<open>
  A reading at time \<open>t\<close> on a one-core machine with every network counter at \<open>b\<close>,
  and the counters alone, as \<^verbatim>\<open>psutil.net_io_counters()\<close> would return them.
\<close>

definition counters_at :: "int \<Rightarrow> net_io" where
  "counters_at b = \<lparr>bytes_sent = b, bytes_recv = b, packets_sent = b, packets_recv = b\<rparr>"

definition reading_at :: "rat \<Rightarrow> int \<Rightarrow> reading" where
  "reading_at t b =
     \<lparr>current_time = t, cpu_usage = [10], memory_percent = 50,
      current_net_io = counters_at b, clock_text = ''12:00:00''\<rparr>"

section \<open>Properties\<close>

subsection \<open>Evaluation helpers\<close>

lemma floor_rat_numeral_divide [simp]:
  "\<lfloor>numeral a / numeral b :: rat\<rfloor> = numeral a div numeral b"
  by (metis floor_divide_of_int_eq of_int_numeral)

lemma round_half_even_le: "round_half_even y \<le> \<lfloor>y\<rfloor> + 1"
  by (simp add: round_half_even_def Let_def)

lemma hundredths_bound:
  assumes "0 \<le> x" and "x < 1024"
  shows "hundredths x \<le> 102400"
proof -
  have "\<bar>x\<bar> * 100 < 102400" using assms by simp
  then have "\<lfloor>\<bar>x\<bar> * 100\<rfloor> < 102400" by (simp add: floor_less_iff)
  then have "round_half_even (\<bar>x\<bar> * 100) \<le> 102400"
    using round_half_even_le [of "\<bar>x\<bar> * 100"] by linarith
  then show ?thesis by (simp add: hundredths_def)
qed


subsection \<open>The history buffer\<close>





subsection \<open>The size formatter\<close>

text \<open>
  C10, as the code has it. For every byte count \<open>v\<close>, \<open>size_formatter\<close> returns \<open>v / 1024^k\<close>
  rendered with two decimals, followed by the \<open>k\<close>-th unit of B, KB, MB, GB, TB, PB,
  where \<open>k\<close> is the smallest index in 0..4 with \<open>v / 1024^k < 1024\<close>, or 5 when there
  is none. For \<open>v \<ge> 0\<close> and a unit up to TB the value before rendering lies in
  \<open>[0, 1024)\<close>, and the displayed number, rounded to two decimals, is at most 1024.00.
\<close>

theorem size_formatter_unit_and_range:
  "size_formatter v = format_2f (v / 1024 ^ unit_index v) @ '' '' @ unit_names ! unit_index v \<and>
   unit_index v \<le> 5 \<and>
   (\<forall>k < unit_index v. \<not> v / 1024 ^ k < 1024) \<and>
   (unit_index v \<le> 4 \<longrightarrow> v / 1024 ^ unit_index v < 1024) \<and>
   (0 \<le> v \<and> unit_index v \<le> 4 \<longrightarrow>
      0 \<le> v / 1024 ^ unit_index v \<and> hundredths (v / 1024 ^ unit_index v) \<le> 102400)"
proof -
  have fmt: "size_formatter v =
      format_2f (v / 1024 ^ unit_index v) @ '' '' @ unit_names ! unit_index v"
    by (simp add: size_formatter_def unit_index_def unit_names_def)
  have le5: "unit_index v \<le> 5"
    by (simp add: unit_index_def)
  have least: "\<forall>k < unit_index v. \<not> v / 1024 ^ k < 1024"
    by (auto simp add: unit_index_def less_Suc_eq numeral_eq_Suc split: if_splits)
  have below: "unit_index v \<le> 4 \<longrightarrow> v / 1024 ^ unit_index v < 1024"
    by (simp add: unit_index_def split: if_splits)
  have range: "0 \<le> v \<and> unit_index v \<le> 4 \<longrightarrow>
      0 \<le> v / 1024 ^ unit_index v \<and> hundredths (v / 1024 ^ unit_index v) \<le> 102400"
    using below hundredths_bound [of "v / 1024 ^ unit_index v"] by simp
  from fmt le5 least below range show ?thesis by blast
qed

theorem size_formatter_unit_and_range_witness:
  "(0::nat) < unit_index 1536 \<and> \<not> (1536::rat) / 1024 ^ 0 < 1024 \<and>
   (0::rat) \<le> 1536 \<and> unit_index 1536 \<le> 4 \<and>
   size_formatter 1536 = format_2f (1536 / 1024 ^ 1) @ '' '' @ ''KB'' \<and>
   1536 / 1024 ^ unit_index 1536 < (1024::rat) \<and>
   hundredths (1536 / 1024 ^ unit_index 1536) \<le> 102400"
proof -
  have k: "unit_index 1536 = 1"
    by (simp add: unit_index_def)
  have h: "(0::rat) \<le> 1536 \<and> unit_index 1536 \<le> 4"
    using k by simp
  show ?thesis
    using h k size_formatter_unit_and_range [of 1536] by (simp add: unit_names_def)
qed

text \<open>
  The byte count 1048575 is below \<open>1024^2\<close>, so the unit is KB; its quotient
  1023.999... is displayed as 1024.00, which is not below 1024.
\<close>

theorem size_formatter_displays_1024:
  "unit_index 1048575 = 1 \<and> size_formatter 1048575 = ''1024.00 KB'' \<and>
   \<not> hundredths (1048575 / 1024 ^ unit_index 1048575) < 102400"
  by (simp add: size_formatter_def format_2f_def hundredths_def round_half_even_def
      str_nat.simps digit_char_def Let_def unit_index_def)

subsection \<open>One pass of the update loops\<close>

text \<open>
  What the shared part of \<^verbatim>\<open>update_data\<close> leaves behind, when it completes and when
  it raises. The threshold check touches neither the series nor the previous values.
\<close>

lemma cpu_loop_length: "length (fst (cpu_loop i us hs)) = length hs"
  by (induction us arbitrary: i hs) simp_all

lemma cpu_loop_ok: "i + length us \<le> length hs \<Longrightarrow> snd (cpu_loop i us hs) = None"
  by (induction us arbitrary: i hs) simp_all

lemma check_thresholds_keeps:
  "network_sent_history (fst (check_thresholds a u m s)) = network_sent_history s \<and>
   network_recv_history (fst (check_thresholds a u m s)) = network_recv_history s \<and>
   memory_history (fst (check_thresholds a u m s)) = memory_history s \<and>
   time_points (fst (check_thresholds a u m s)) = time_points s \<and>
   cpu_history (fst (check_thresholds a u m s)) = cpu_history s \<and>
   prev_net_io (fst (check_thresholds a u m s)) = prev_net_io s \<and>
   prev_time (fst (check_thresholds a u m s)) = prev_time s"
  by (simp add: check_thresholds_def notify_def Let_def split: sum.splits)

lemma sample_histories_Inr:
  assumes "sample_histories r s = (s', Inr (x, y))"
  shows "current_time r \<noteq> prev_time s"
    and "x = of_int (bytes_sent (current_net_io r) - bytes_sent (prev_net_io s)) /
             (current_time r - prev_time s)"
    and "y = of_int (bytes_recv (current_net_io r) - bytes_recv (prev_net_io s)) /
             (current_time r - prev_time s)"
    and "network_sent_history s' =
           (if MAX_HISTORY \<le> length (network_sent_history s)
            then tl (network_sent_history s) else network_sent_history s) @ [x]"
    and "network_recv_history s' =
           (if MAX_HISTORY \<le> length (network_sent_history s)
            then tl (network_recv_history s) else network_recv_history s) @ [y]"
    and "memory_history s' = push (memory_history s) (memory_percent r)"
    and "time_points s' = push (time_points s) (clock_text r)"
    and "cpu_history s' = fst (cpu_loop 0 (cpu_usage r) (cpu_history s))"
    and "snd (cpu_loop 0 (cpu_usage r) (cpu_history s)) = None"
    and "prev_net_io s' = prev_net_io s"
    and "prev_time s' = prev_time s"
    and "enable_notifications s' = enable_notifications s"
  using assms
  by (auto simp add: sample_histories_def push_network_def true_div_def Let_def
      split: option.splits sum.splits if_splits list.splits prod.splits)

lemma sample_histories_Inl:
  assumes "sample_histories r s = (s', Inl e)"
    and "length (network_sent_history s) = length (network_recv_history s)"
  shows "network_sent_history s' = network_sent_history s"
    and "network_recv_history s' = network_recv_history s"
    and "prev_net_io s' = prev_net_io s"
    and "prev_time s' = prev_time s"
  using assms
  by (auto simp add: sample_histories_def push_network_def true_div_def Let_def MAX_HISTORY_def
      split: option.splits sum.splits if_splits list.splits prod.splits)

lemma sample_histories_zero:
  assumes "current_time r = prev_time s"
    and "length (cpu_usage r) \<le> length (cpu_history s)"
  shows "snd (sample_histories r s) = Inl ZeroDivisionError"
  using assms cpu_loop_ok [of 0 "cpu_usage r" "cpu_history s"]
  by (simp add: sample_histories_def true_div_def Let_def)

lemma sample_histories_completes:
  assumes "current_time r \<noteq> prev_time s"
    and "length (cpu_usage r) \<le> length (cpu_history s)"
    and "length (network_sent_history s) = length (network_recv_history s)"
  shows "\<exists>s' x y. sample_histories r s = (s', Inr (x, y))"
  using assms cpu_loop_ok [of 0 "cpu_usage r" "cpu_history s"]
  by (auto simp add: sample_histories_def push_network_def true_div_def Let_def MAX_HISTORY_def
      split: option.splits sum.splits if_splits list.splits prod.splits)

lemma generate_network_table_nonzero:
  "td \<noteq> 0 \<Longrightarrow> generate_network_table p c td =
     Inr \<lparr>bytes_sent_per_sec = of_int (bytes_sent c - bytes_sent p) / td,
          bytes_recv_per_sec = of_int (bytes_recv c - bytes_recv p) / td,
          packets_sent_per_sec = of_int (packets_sent c - packets_sent p) / td,
          packets_recv_per_sec = of_int (packets_recv c - packets_recv p) / td\<rparr>"
  by (simp add: generate_network_table_def true_div_def)

lemma gui_tick_completed:
  assumes "snd (gui_tick r s) = None"
  shows "\<exists>s' x y. sample_histories r s = (s', Inr (x, y)) \<and>
           gui_tick r s = (s'\<lparr>prev_net_io := current_net_io r, prev_time := current_time r\<rparr>, None)"
  using assms by (auto simp add: gui_tick_def split: prod.splits sum.splits)

lemma vitalviz_try_completed:
  assumes "snd (vitalviz_try a r s) = None"
  shows "\<exists>s' x y. sample_histories r s = (s', Inr (x, y)) \<and>
           network_sent_history (vitalviz_tick a r s) = network_sent_history s' \<and>
           network_recv_history (vitalviz_tick a r s) = network_recv_history s' \<and>
           memory_history (vitalviz_tick a r s) = memory_history s' \<and>
           time_points (vitalviz_tick a r s) = time_points s' \<and>
           cpu_history (vitalviz_tick a r s) = cpu_history s'"
proof -
  obtain s1 res where sh: "sample_histories r s = (s1, res)" by (cases "sample_histories r s")
  show ?thesis
  proof (cases res)
    case (Inl e)
    with sh assms show ?thesis by (simp add: vitalviz_try_def)
  next
    case (Inr xy)
    obtain x y where xy: "xy = (x, y)" by (cases xy)
    show ?thesis
      using sh Inr xy check_thresholds_keeps [of a "cpu_usage r" "memory_percent r" s1]
      by (auto simp add: vitalviz_tick_def vitalviz_try_def split: prod.splits option.splits if_splits)
  qed
qed

lemma sample_histories_zero_keeps:
  assumes "current_time r = prev_time s"
  shows "network_sent_history (fst (sample_histories r s)) = network_sent_history s"
    and "network_recv_history (fst (sample_histories r s)) = network_recv_history s"
    and "prev_net_io (fst (sample_histories r s)) = prev_net_io s"
    and "prev_time (fst (sample_histories r s)) = prev_time s"
    and "\<exists>e. snd (sample_histories r s) = Inl e"
  using assms
  by (simp_all add: sample_histories_def true_div_def Let_def split: option.splits)

lemma gui_tick_network:
  "network_sent_history (fst (gui_tick r s)) = network_sent_history (fst (sample_histories r s)) \<and>
   network_recv_history (fst (gui_tick r s)) = network_recv_history (fst (sample_histories r s))"
  by (simp add: gui_tick_def split: prod.splits sum.splits)

lemma vitalviz_tick_network:
  "network_sent_history (vitalviz_tick a r s) = network_sent_history (fst (sample_histories r s)) \<and>
   network_recv_history (vitalviz_tick a r s) = network_recv_history (fst (sample_histories r s))"
proof -
  obtain s1 res where sh: "sample_histories r s = (s1, res)"
    by (cases "sample_histories r s")
  show ?thesis
    using sh check_thresholds_keeps [of a "cpu_usage r" "memory_percent r" s1]
    by (cases res)
      (auto simp add: vitalviz_tick_def vitalviz_try_def split: prod.splits option.splits)
qed

subsection \<open>Rate derivation\<close>

text \<open>
  C1, as the code has it. For every pair of consecutive counter readings and every elapsed time
  greater than zero, each derived per-second rate equals \<open>(curr - prev) / elapsed\<close>:
  in the table of the terminal front-end for the four counters, and in the value a
  completed pass of the GUI loop appends to the send and receive histories. There is
  no clamp: whenever \<open>curr < prev\<close> (counter reset), the rate is negative.
\<close>

theorem rate_is_difference_over_elapsed:
  "(0 < td \<longrightarrow>
      generate_network_table p c td =
        Inr \<lparr>bytes_sent_per_sec = of_int (bytes_sent c - bytes_sent p) / td,
             bytes_recv_per_sec = of_int (bytes_recv c - bytes_recv p) / td,
             packets_sent_per_sec = of_int (packets_sent c - packets_sent p) / td,
             packets_recv_per_sec = of_int (packets_recv c - packets_recv p) / td\<rparr>) \<and>
   (0 < current_time r - prev_time s \<and> snd (vitalviz_try a r s) = None \<longrightarrow>
      last (network_sent_history (vitalviz_tick a r s)) =
        of_int (bytes_sent (current_net_io r) - bytes_sent (prev_net_io s)) /
          (current_time r - prev_time s) \<and>
      last (network_recv_history (vitalviz_tick a r s)) =
        of_int (bytes_recv (current_net_io r) - bytes_recv (prev_net_io s)) /
          (current_time r - prev_time s)) \<and>
   (0 < td \<longrightarrow>
      (\<exists>t. generate_network_table p c td = Inr t \<and>
         (bytes_sent c < bytes_sent p \<longrightarrow> bytes_sent_per_sec t < 0) \<and>
         (bytes_recv c < bytes_recv p \<longrightarrow> bytes_recv_per_sec t < 0) \<and>
         (packets_sent c < packets_sent p \<longrightarrow> packets_sent_per_sec t < 0) \<and>
         (packets_recv c < packets_recv p \<longrightarrow> packets_recv_per_sec t < 0)))"
proof (intro conjI impI)
  assume "0 < td"
  then show "generate_network_table p c td =
        Inr \<lparr>bytes_sent_per_sec = of_int (bytes_sent c - bytes_sent p) / td,
             bytes_recv_per_sec = of_int (bytes_recv c - bytes_recv p) / td,
             packets_sent_per_sec = of_int (packets_sent c - packets_sent p) / td,
             packets_recv_per_sec = of_int (packets_recv c - packets_recv p) / td\<rparr>"
    by (simp add: generate_network_table_nonzero)
next
  assume a: "0 < current_time r - prev_time s \<and> snd (vitalviz_try a r s) = None"
  then obtain s' x y where sh: "sample_histories r s = (s', Inr (x, y))"
    and sent: "network_sent_history (vitalviz_tick a r s) = network_sent_history s'"
    using vitalviz_try_completed [of a r s] by blast
  show "last (network_sent_history (vitalviz_tick a r s)) =
        of_int (bytes_sent (current_net_io r) - bytes_sent (prev_net_io s)) /
          (current_time r - prev_time s)"
    using sent sample_histories_Inr(2,4) [OF sh] by simp
next
  assume a: "0 < current_time r - prev_time s \<and> snd (vitalviz_try a r s) = None"
  then obtain s' x y where sh: "sample_histories r s = (s', Inr (x, y))"
    and recv: "network_recv_history (vitalviz_tick a r s) = network_recv_history s'"
    using vitalviz_try_completed [of a r s] by blast
  show "last (network_recv_history (vitalviz_tick a r s)) =
        of_int (bytes_recv (current_net_io r) - bytes_recv (prev_net_io s)) /
          (current_time r - prev_time s)"
    using recv sample_histories_Inr(3,5) [OF sh] by simp
next
  assume "0 < td"
  then show "\<exists>t. generate_network_table p c td = Inr t \<and>
         (bytes_sent c < bytes_sent p \<longrightarrow> bytes_sent_per_sec t < 0) \<and>
         (bytes_recv c < bytes_recv p \<longrightarrow> bytes_recv_per_sec t < 0) \<and>
         (packets_sent c < packets_sent p \<longrightarrow> packets_sent_per_sec t < 0) \<and>
         (packets_recv c < packets_recv p \<longrightarrow> packets_recv_per_sec t < 0)"
    by (simp add: generate_network_table_nonzero divide_neg_pos)
qed

theorem rate_is_difference_over_elapsed_witness:
  "(0::rat) < 1 \<and>
   0 < current_time (reading_at 1 500) - prev_time (init_monitor 1 (counters_at 3000) 0) \<and>
   snd (vitalviz_try True (reading_at 1 500) (init_monitor 1 (counters_at 3000) 0)) = None \<and>
   bytes_sent (counters_at 500) < bytes_sent (counters_at 3000) \<and>
   bytes_recv (counters_at 500) < bytes_recv (counters_at 3000) \<and>
   packets_sent (counters_at 500) < packets_sent (counters_at 3000) \<and>
   packets_recv (counters_at 500) < packets_recv (counters_at 3000) \<and>
   generate_network_table (counters_at 3000) (counters_at 500) 1 =
     Inr \<lparr>bytes_sent_per_sec = - 2500, bytes_recv_per_sec = - 2500,
          packets_sent_per_sec = - 2500, packets_recv_per_sec = - 2500\<rparr> \<and>
   last (network_sent_history
      (vitalviz_tick True (reading_at 1 500) (init_monitor 1 (counters_at 3000) 0))) = - 2500 \<and>
   last (network_recv_history
      (vitalviz_tick True (reading_at 1 500) (init_monitor 1 (counters_at 3000) 0))) = - 2500"
proof -
  have h: "(0::rat) < 1 \<and>
      0 < current_time (reading_at 1 500) - prev_time (init_monitor 1 (counters_at 3000) 0) \<and>
      snd (vitalviz_try True (reading_at 1 500) (init_monitor 1 (counters_at 3000) 0)) = None"
    by (simp add: vitalviz_try_def sample_histories_def init_monitor_def push_def
        push_network_def MAX_HISTORY_def check_thresholds_def notify_def Let_def true_div_def
        counters_at_def reading_at_def)
  have c: "bytes_sent (counters_at 500) < bytes_sent (counters_at 3000) \<and>
      bytes_recv (counters_at 500) < bytes_recv (counters_at 3000) \<and>
      packets_sent (counters_at 500) < packets_sent (counters_at 3000) \<and>
      packets_recv (counters_at 500) < packets_recv (counters_at 3000)"
    by (simp add: counters_at_def)
  have v: "prev_net_io (init_monitor 1 (counters_at 3000) 0) = counters_at 3000 \<and>
      prev_time (init_monitor 1 (counters_at 3000) 0) = 0 \<and>
      current_net_io (reading_at 1 500) = counters_at 500 \<and>
      current_time (reading_at 1 500) = 1"
    by (simp add: init_monitor_def reading_at_def)
  show ?thesis
    using h c v rate_is_difference_over_elapsed
      [of 1 "counters_at 3000" "counters_at 500" "reading_at 1 500"
          "init_monitor 1 (counters_at 3000) 0" True]
    by (simp add: counters_at_def)
qed

text \<open>
  Counters that fall from 3000 to 500 in one second give the rate \<open>-2500\<close>, in the
  table and in the send history, where a clamp would give 0.
\<close>

theorem reset_counter_gives_negative_rate:
  "generate_network_table (counters_at 3000) (counters_at 500) 1 =
     Inr \<lparr>bytes_sent_per_sec = - 2500, bytes_recv_per_sec = - 2500,
          packets_sent_per_sec = - 2500, packets_recv_per_sec = - 2500\<rparr> \<and>
   network_sent_history
     (vitalviz_tick True (reading_at 1 500) (init_monitor 1 (counters_at 3000) 0)) = [- 2500] \<and>
   - 2500 \<noteq> max 0 (of_int (500 - 3000)) / (1::rat)"
  by (simp add: generate_network_table_def true_div_def vitalviz_tick_def vitalviz_try_def
      sample_histories_def init_monitor_def push_def push_network_def MAX_HISTORY_def
      check_thresholds_def notify_def Let_def counters_at_def reading_at_def)

text \<open>
  C2, as the code has it. When the elapsed time is zero, the rate derivation divides by zero and
  raises ZeroDivisionError; no rate is produced. The terminal loop and the basic GUI loop
  end with that exception. The feature-rich GUI catches it: the pass leaves the network
  histories and the previous counters and time as they were. When the elapsed time is
  negative, nothing is skipped: each rate is \<open>(curr - prev) / elapsed\<close>, in the table
  of the terminal loop and in the value that the pass of either GUI loop pushes on the
  send and on the receive history.
\<close>

theorem zero_elapsed_raises:
  "generate_network_table p c 0 = Inl ZeroDivisionError \<and>
   (current_time r = snd st \<longrightarrow> main_iteration r st = Inl ZeroDivisionError) \<and>
   (current_time r = prev_time s \<and> length (cpu_usage r) \<le> length (cpu_history s) \<longrightarrow>
      snd (gui_tick r s) = Some ZeroDivisionError \<and>
      snd (vitalviz_try a r s) = Some ZeroDivisionError \<and>
      network_sent_history (vitalviz_tick a r s) = network_sent_history s \<and>
      network_recv_history (vitalviz_tick a r s) = network_recv_history s \<and>
      prev_net_io (vitalviz_tick a r s) = prev_net_io s \<and>
      prev_time (vitalviz_tick a r s) = prev_time s) \<and>
   (td < 0 \<longrightarrow>
      generate_network_table p c td =
        Inr \<lparr>bytes_sent_per_sec = of_int (bytes_sent c - bytes_sent p) / td,
             bytes_recv_per_sec = of_int (bytes_recv c - bytes_recv p) / td,
             packets_sent_per_sec = of_int (packets_sent c - packets_sent p) / td,
             packets_recv_per_sec = of_int (packets_recv c - packets_recv p) / td\<rparr>) \<and>
   (current_time r < prev_time s \<and> length (cpu_usage r) \<le> length (cpu_history s) \<and>
    length (network_sent_history s) = length (network_recv_history s) \<longrightarrow>
      snd (gui_tick r s) = None \<and>
      network_sent_history (fst (gui_tick r s)) =
        push (network_sent_history s)
          (of_int (bytes_sent (current_net_io r) - bytes_sent (prev_net_io s)) /
             (current_time r - prev_time s)) \<and>
      network_recv_history (fst (gui_tick r s)) =
        push (network_recv_history s)
          (of_int (bytes_recv (current_net_io r) - bytes_recv (prev_net_io s)) /
             (current_time r - prev_time s)) \<and>
      network_sent_history (vitalviz_tick a r s) =
        push (network_sent_history s)
          (of_int (bytes_sent (current_net_io r) - bytes_sent (prev_net_io s)) /
             (current_time r - prev_time s)) \<and>
      network_recv_history (vitalviz_tick a r s) =
        push (network_recv_history s)
          (of_int (bytes_recv (current_net_io r) - bytes_recv (prev_net_io s)) /
             (current_time r - prev_time s)))"
proof -
  have z: "generate_network_table p c 0 = Inl ZeroDivisionError"
    by (simp add: generate_network_table_def true_div_def)
  have m: "current_time r = snd st \<longrightarrow> main_iteration r st = Inl ZeroDivisionError"
    by (simp add: main_iteration_def generate_network_table_def true_div_def)
  have g: "current_time r = prev_time s \<and> length (cpu_usage r) \<le> length (cpu_history s) \<longrightarrow>
      snd (gui_tick r s) = Some ZeroDivisionError \<and>
      snd (vitalviz_try a r s) = Some ZeroDivisionError \<and>
      network_sent_history (vitalviz_tick a r s) = network_sent_history s \<and>
      network_recv_history (vitalviz_tick a r s) = network_recv_history s \<and>
      prev_net_io (vitalviz_tick a r s) = prev_net_io s \<and>
      prev_time (vitalviz_tick a r s) = prev_time s"
  proof
    assume a: "current_time r = prev_time s \<and> length (cpu_usage r) \<le> length (cpu_history s)"
    obtain s' res where sh: "sample_histories r s = (s', res)"
      by (cases "sample_histories r s")
    have res: "res = Inl ZeroDivisionError"
      using a sh sample_histories_zero [of r s] by simp
    have keep: "network_sent_history s' = network_sent_history s \<and>
        network_recv_history s' = network_recv_history s \<and>
        prev_net_io s' = prev_net_io s \<and> prev_time s' = prev_time s"
      using a sh sample_histories_zero_keeps(1-4) [of r s] by simp
    show "snd (gui_tick r s) = Some ZeroDivisionError \<and>
      snd (vitalviz_try a r s) = Some ZeroDivisionError \<and>
      network_sent_history (vitalviz_tick a r s) = network_sent_history s \<and>
      network_recv_history (vitalviz_tick a r s) = network_recv_history s \<and>
      prev_net_io (vitalviz_tick a r s) = prev_net_io s \<and>
      prev_time (vitalviz_tick a r s) = prev_time s"
      using sh res keep by (simp add: gui_tick_def vitalviz_try_def vitalviz_tick_def)
  qed
  have n: "td < 0 \<longrightarrow>
      generate_network_table p c td =
        Inr \<lparr>bytes_sent_per_sec = of_int (bytes_sent c - bytes_sent p) / td,
             bytes_recv_per_sec = of_int (bytes_recv c - bytes_recv p) / td,
             packets_sent_per_sec = of_int (packets_sent c - packets_sent p) / td,
             packets_recv_per_sec = of_int (packets_recv c - packets_recv p) / td\<rparr>"
    by (simp add: generate_network_table_nonzero)
  have ng: "(current_time r < prev_time s \<and> length (cpu_usage r) \<le> length (cpu_history s) \<and>
      length (network_sent_history s) = length (network_recv_history s) \<longrightarrow>
        snd (gui_tick r s) = None \<and>
        network_sent_history (fst (gui_tick r s)) =
          push (network_sent_history s)
            (of_int (bytes_sent (current_net_io r) - bytes_sent (prev_net_io s)) /
               (current_time r - prev_time s)) \<and>
        network_recv_history (fst (gui_tick r s)) =
          push (network_recv_history s)
            (of_int (bytes_recv (current_net_io r) - bytes_recv (prev_net_io s)) /
               (current_time r - prev_time s)) \<and>
        network_sent_history (vitalviz_tick a r s) =
          push (network_sent_history s)
            (of_int (bytes_sent (current_net_io r) - bytes_sent (prev_net_io s)) /
               (current_time r - prev_time s)) \<and>
        network_recv_history (vitalviz_tick a r s) =
          push (network_recv_history s)
            (of_int (bytes_recv (current_net_io r) - bytes_recv (prev_net_io s)) /
               (current_time r - prev_time s)))"
  proof
    assume h: "current_time r < prev_time s \<and> length (cpu_usage r) \<le> length (cpu_history s) \<and>
      length (network_sent_history s) = length (network_recv_history s)"
    then obtain s' x y where sh: "sample_histories r s = (s', Inr (x, y))"
      using sample_histories_completes [of r s] by auto
    have pushed: "network_sent_history s' = push (network_sent_history s) x \<and>
        network_recv_history s' = push (network_recv_history s) y"
      using sample_histories_Inr(4,5) [OF sh] h by (simp add: push_def)
    have rates: "x = of_int (bytes_sent (current_net_io r) - bytes_sent (prev_net_io s)) /
          (current_time r - prev_time s) \<and>
        y = of_int (bytes_recv (current_net_io r) - bytes_recv (prev_net_io s)) /
          (current_time r - prev_time s)"
      using sample_histories_Inr(2,3) [OF sh] by simp
    have completes: "snd (gui_tick r s) = None"
      using sh by (simp add: gui_tick_def)
    show "snd (gui_tick r s) = None \<and>
      network_sent_history (fst (gui_tick r s)) =
        push (network_sent_history s)
          (of_int (bytes_sent (current_net_io r) - bytes_sent (prev_net_io s)) /
             (current_time r - prev_time s)) \<and>
      network_recv_history (fst (gui_tick r s)) =
        push (network_recv_history s)
          (of_int (bytes_recv (current_net_io r) - bytes_recv (prev_net_io s)) /
             (current_time r - prev_time s)) \<and>
      network_sent_history (vitalviz_tick a r s) =
        push (network_sent_history s)
          (of_int (bytes_sent (current_net_io r) - bytes_sent (prev_net_io s)) /
             (current_time r - prev_time s)) \<and>
      network_recv_history (vitalviz_tick a r s) =
        push (network_recv_history s)
          (of_int (bytes_recv (current_net_io r) - bytes_recv (prev_net_io s)) /
             (current_time r - prev_time s))"
      using completes pushed rates sh gui_tick_network [of r s] vitalviz_tick_network [of a r s]
      by simp
  qed
  from z m g n ng show ?thesis by blast
qed

theorem zero_elapsed_raises_witness:
  "current_time (reading_at 5 3000) = snd (counters_at 1000, 5::rat) \<and>
   main_iteration (reading_at 5 3000) (counters_at 1000, 5) = Inl ZeroDivisionError \<and>
   current_time (reading_at 5 3000) = prev_time (init_monitor 1 (counters_at 1000) 5) \<and>
   length (cpu_usage (reading_at 5 3000)) \<le> length (cpu_history (init_monitor 1 (counters_at 1000) 5)) \<and>
   snd (gui_tick (reading_at 5 3000) (init_monitor 1 (counters_at 1000) 5)) = Some ZeroDivisionError \<and>
   network_sent_history (vitalviz_tick True (reading_at 5 3000) (init_monitor 1 (counters_at 1000) 5)) = [] \<and>
   (- 1::rat) < 0 \<and>
   generate_network_table (counters_at 1000) (counters_at 3000) (- 1) =
     Inr \<lparr>bytes_sent_per_sec = - 2000, bytes_recv_per_sec = - 2000,
          packets_sent_per_sec = - 2000, packets_recv_per_sec = - 2000\<rparr> \<and>
   current_time (reading_at 4 3000) < prev_time (init_monitor 1 (counters_at 1000) 5) \<and>
   length (cpu_usage (reading_at 4 3000)) \<le>
     length (cpu_history (init_monitor 1 (counters_at 1000) 5)) \<and>
   length (network_sent_history (init_monitor 1 (counters_at 1000) 5)) =
     length (network_recv_history (init_monitor 1 (counters_at 1000) 5)) \<and>
   snd (gui_tick (reading_at 4 3000) (init_monitor 1 (counters_at 1000) 5)) = None \<and>
   network_sent_history (fst (gui_tick (reading_at 4 3000) (init_monitor 1 (counters_at 1000) 5)))
     = [- 2000] \<and>
   network_recv_history (vitalviz_tick True (reading_at 4 3000) (init_monitor 1 (counters_at 1000) 5))
     = [- 2000]"
proof -
  have h: "current_time (reading_at 5 3000) = snd (counters_at 1000, 5::rat) \<and>
      current_time (reading_at 5 3000) = prev_time (init_monitor 1 (counters_at 1000) 5) \<and>
      length (cpu_usage (reading_at 5 3000)) \<le>
        length (cpu_history (init_monitor 1 (counters_at 1000) 5)) \<and> (- 1::rat) < 0"
    by (simp add: reading_at_def init_monitor_def)
  have v: "network_sent_history (init_monitor 1 (counters_at 1000) 5) = []"
    by (simp add: init_monitor_def)
  have h': "current_time (reading_at 4 3000) < prev_time (init_monitor 1 (counters_at 1000) 5) \<and>
      length (cpu_usage (reading_at 4 3000)) \<le>
        length (cpu_history (init_monitor 1 (counters_at 1000) 5)) \<and>
      length (network_sent_history (init_monitor 1 (counters_at 1000) 5)) =
        length (network_recv_history (init_monitor 1 (counters_at 1000) 5))"
    by (simp add: reading_at_def init_monitor_def)
  have v': "network_sent_history (init_monitor 1 (counters_at 1000) 5) = [] \<and>
      network_recv_history (init_monitor 1 (counters_at 1000) 5) = [] \<and>
      prev_net_io (init_monitor 1 (counters_at 1000) 5) = counters_at 1000 \<and>
      prev_time (init_monitor 1 (counters_at 1000) 5) = 5 \<and>
      current_net_io (reading_at 4 3000) = counters_at 3000 \<and>
      current_time (reading_at 4 3000) = 4"
    by (simp add: reading_at_def init_monitor_def)
  have zero: "current_time (reading_at 5 3000) = snd (counters_at 1000, 5::rat) \<and>
      main_iteration (reading_at 5 3000) (counters_at 1000, 5) = Inl ZeroDivisionError \<and>
      current_time (reading_at 5 3000) = prev_time (init_monitor 1 (counters_at 1000) 5) \<and>
      length (cpu_usage (reading_at 5 3000)) \<le>
        length (cpu_history (init_monitor 1 (counters_at 1000) 5)) \<and>
      snd (gui_tick (reading_at 5 3000) (init_monitor 1 (counters_at 1000) 5)) =
        Some ZeroDivisionError \<and>
      network_sent_history
        (vitalviz_tick True (reading_at 5 3000) (init_monitor 1 (counters_at 1000) 5)) = [] \<and>
      (- 1::rat) < 0 \<and>
      generate_network_table (counters_at 1000) (counters_at 3000) (- 1) =
        Inr \<lparr>bytes_sent_per_sec = - 2000, bytes_recv_per_sec = - 2000,
             packets_sent_per_sec = - 2000, packets_recv_per_sec = - 2000\<rparr>"
    using h v zero_elapsed_raises
      [of "counters_at 1000" "counters_at 3000" "reading_at 5 3000" "(counters_at 1000, 5)"
          "init_monitor 1 (counters_at 1000) 5" True "- 1"]
    by (simp add: counters_at_def)
  have neg: "snd (gui_tick (reading_at 4 3000) (init_monitor 1 (counters_at 1000) 5)) = None \<and>
      network_sent_history
        (fst (gui_tick (reading_at 4 3000) (init_monitor 1 (counters_at 1000) 5))) = [- 2000] \<and>
      network_recv_history
        (vitalviz_tick True (reading_at 4 3000) (init_monitor 1 (counters_at 1000) 5)) = [- 2000]"
    using h' v' zero_elapsed_raises
      [of "counters_at 1000" "counters_at 3000" "reading_at 4 3000" "(counters_at 1000, 5)"
          "init_monitor 1 (counters_at 1000) 5" True "- 1"]
    by (simp add: counters_at_def push_def MAX_HISTORY_def)
  from zero h' neg show ?thesis by blast
qed

text \<open>
  A pass at the very time of the previous one: the table raises, the basic GUI pass has
  pushed the time point, CPU and memory values and then raised. With the elapsed time
  \<open>-1\<close> the rates are computed, and are negative for growing counters: in the
  table, and in the send history of both GUI loops after a pass one second before the
  previous one.
\<close>

theorem zero_elapsed_divides_by_zero:
  "generate_network_table (counters_at 1000) (counters_at 3000) 0 = Inl ZeroDivisionError \<and>
   gui_tick (reading_at 5 3000) (init_monitor 1 (counters_at 1000) 5) =
     ((init_monitor 1 (counters_at 1000) 5)
        \<lparr>time_points := [''12:00:00''], cpu_history := [[10]], memory_history := [50]\<rparr>,
      Some ZeroDivisionError) \<and>
   generate_network_table (counters_at 1000) (counters_at 3000) (- 1) =
     Inr \<lparr>bytes_sent_per_sec = - 2000, bytes_recv_per_sec = - 2000,
          packets_sent_per_sec = - 2000, packets_recv_per_sec = - 2000\<rparr> \<and>
   network_sent_history
     (fst (gui_tick (reading_at 4 3000) (init_monitor 1 (counters_at 1000) 5))) = [- 2000] \<and>
   network_sent_history
     (vitalviz_tick True (reading_at 4 3000) (init_monitor 1 (counters_at 1000) 5)) = [- 2000]"
  by (simp add: generate_network_table_def true_div_def gui_tick_def
      vitalviz_tick_def vitalviz_try_def check_thresholds_def notify_def
      sample_histories_def init_monitor_def push_def push_network_def MAX_HISTORY_def
      Let_def counters_at_def reading_at_def)

text \<open>
  C5, as the code has it. On the very first pass of a loop the rate computation is not skipped:
  the previous counters and time are those read at start-up, and each rate is the
  difference to them over the time since then. The basic GUI pushes it as the first
  value of the send and receive histories; the terminal loop puts the four rates in
  its first table.
\<close>

theorem first_tick_rate_from_initial_reading:
  "(current_time r \<noteq> t0 \<and> length (cpu_usage r) \<le> n \<longrightarrow>
      snd (gui_tick r (init_monitor n net0 t0)) = None \<and>
      network_sent_history (fst (gui_tick r (init_monitor n net0 t0))) =
        [of_int (bytes_sent (current_net_io r) - bytes_sent net0) / (current_time r - t0)] \<and>
      network_recv_history (fst (gui_tick r (init_monitor n net0 t0))) =
        [of_int (bytes_recv (current_net_io r) - bytes_recv net0) / (current_time r - t0)]) \<and>
   (current_time r \<noteq> t0 \<longrightarrow>
      main_iteration r (net0, t0) =
        Inr (\<lparr>bytes_sent_per_sec =
               of_int (bytes_sent (current_net_io r) - bytes_sent net0) / (current_time r - t0),
             bytes_recv_per_sec =
               of_int (bytes_recv (current_net_io r) - bytes_recv net0) / (current_time r - t0),
             packets_sent_per_sec =
               of_int (packets_sent (current_net_io r) - packets_sent net0) / (current_time r - t0),
             packets_recv_per_sec =
               of_int (packets_recv (current_net_io r) - packets_recv net0) / (current_time r - t0)\<rparr>,
             (current_net_io r, current_time r)))"
proof (intro conjI impI)
  assume a: "current_time r \<noteq> t0 \<and> length (cpu_usage r) \<le> n"
  let ?s = "init_monitor n net0 t0"
  have init: "prev_time ?s = t0" "prev_net_io ?s = net0" "length (cpu_history ?s) = n"
    "network_sent_history ?s = []" "network_recv_history ?s = []"
    by (simp_all add: init_monitor_def)
  obtain s' x y where sh: "sample_histories r ?s = (s', Inr (x, y))"
    using a init sample_histories_completes [of r ?s] by auto
  show "snd (gui_tick r ?s) = None"
    using sh by (simp add: gui_tick_def)
  show "network_sent_history (fst (gui_tick r ?s)) =
        [of_int (bytes_sent (current_net_io r) - bytes_sent net0) / (current_time r - t0)]"
    using sh sample_histories_Inr(2,4) [OF sh] init
    by (simp add: gui_tick_def MAX_HISTORY_def)
  show "network_recv_history (fst (gui_tick r ?s)) =
        [of_int (bytes_recv (current_net_io r) - bytes_recv net0) / (current_time r - t0)]"
    using sh sample_histories_Inr(3,5) [OF sh] init
    by (simp add: gui_tick_def MAX_HISTORY_def)
next
  assume "current_time r \<noteq> t0"
  then show "main_iteration r (net0, t0) =
        Inr (\<lparr>bytes_sent_per_sec =
               of_int (bytes_sent (current_net_io r) - bytes_sent net0) / (current_time r - t0),
             bytes_recv_per_sec =
               of_int (bytes_recv (current_net_io r) - bytes_recv net0) / (current_time r - t0),
             packets_sent_per_sec =
               of_int (packets_sent (current_net_io r) - packets_sent net0) / (current_time r - t0),
             packets_recv_per_sec =
               of_int (packets_recv (current_net_io r) - packets_recv net0) / (current_time r - t0)\<rparr>,
             (current_net_io r, current_time r))"
    by (simp add: main_iteration_def generate_network_table_nonzero)
qed

theorem first_tick_rate_from_initial_reading_witness:
  "current_time (reading_at 1 3000) \<noteq> 0 \<and> length (cpu_usage (reading_at 1 3000)) \<le> 1 \<and>
   snd (gui_tick (reading_at 1 3000) (init_monitor 1 (counters_at 1000) 0)) = None \<and>
   network_sent_history (fst (gui_tick (reading_at 1 3000) (init_monitor 1 (counters_at 1000) 0)))
     = [2000] \<and>
   network_recv_history (fst (gui_tick (reading_at 1 3000) (init_monitor 1 (counters_at 1000) 0)))
     = [2000] \<and>
   main_iteration (reading_at 1 3000) (counters_at 1000, 0) =
     Inr (\<lparr>bytes_sent_per_sec = 2000, bytes_recv_per_sec = 2000,
           packets_sent_per_sec = 2000, packets_recv_per_sec = 2000\<rparr>,
          (counters_at 3000, 1))"
proof -
  have h: "current_time (reading_at 1 3000) \<noteq> 0 \<and> length (cpu_usage (reading_at 1 3000)) \<le> 1"
    by (simp add: reading_at_def)
  have v: "current_time (reading_at 1 3000) = 1 \<and>
      current_net_io (reading_at 1 3000) = counters_at 3000"
    by (simp add: reading_at_def)
  show ?thesis
    using h v first_tick_rate_from_initial_reading
      [of "reading_at 1 3000" 0 1 "counters_at 1000"]
    by (simp add: counters_at_def)
qed

text \<open>
  Start-up at time 0 with the counters at 1000, first pass at time 1 with the counters
  at 3000: the first rate reported is 2000, not 0.
\<close>

theorem first_tick_reports_nonzero_rate:
  "gui_tick (reading_at 1 3000) (init_monitor 1 (counters_at 1000) 0) =
     ((init_monitor 1 (counters_at 1000) 0)
        \<lparr>time_points := [''12:00:00''], cpu_history := [[10]], memory_history := [50],
         network_recv_history := [2000], network_sent_history := [2000],
         prev_net_io := counters_at 3000, prev_time := 1\<rparr>, None) \<and>
   main_iteration (reading_at 1 3000) (counters_at 1000, 0) =
     Inr (\<lparr>bytes_sent_per_sec = 2000, bytes_recv_per_sec = 2000,
           packets_sent_per_sec = 2000, packets_recv_per_sec = 2000\<rparr>,
          (counters_at 3000, 1))"
  by (simp add: generate_network_table_def true_div_def gui_tick_def main_iteration_def
      sample_histories_def init_monitor_def push_def push_network_def MAX_HISTORY_def
      Let_def counters_at_def reading_at_def)

subsection \<open>Thresholds\<close>

text \<open>
  C3, as the code has it. With the thresholds 90 and 70 of the CPU check, starting from the state
  without \<^verbatim>\<open>cpu_notified\<close>, the mean values 95, 85, 75, 65 give: the alert
  notification at 95 and the flag set; nothing at 85 and 75, where the state stays as
  it is; at 65 the flag is removed and no notification is sent. In every state with
  the flag set, a mean value below 70 removes the flag, and the check sends no CPU
  notification: the log grows by nothing, or by the memory alert of the same call.
  The memory reading is kept between 75 and 85 in the run, where the memory check
  does nothing.
\<close>

theorem cpu_threshold_hysteresis:
  "(\<not> cpu_notified s \<and> 75 \<le> m \<and> m \<le> 85 \<longrightarrow>
      (let s1 = fst (check_thresholds True [95] m s);
           s2 = fst (check_thresholds True [85] m s1);
           s3 = fst (check_thresholds True [75] m s2);
           s4 = fst (check_thresholds True [65] m s3)
       in cpu_notified s1 \<and> notifications s1 = notifications s @ [cpu_alert] \<and>
          s2 = s1 \<and> s3 = s2 \<and>
          \<not> cpu_notified s4 \<and> notifications s4 = notifications s3)) \<and>
   (cpu_notified s \<and> usage \<noteq> [] \<and> sum_list usage / of_nat (length usage) < 70 \<longrightarrow>
      snd (check_thresholds a usage m s) = None \<and>
      \<not> cpu_notified (fst (check_thresholds a usage m s)) \<and>
      (notifications (fst (check_thresholds a usage m s)) = notifications s \<or>
       notifications (fst (check_thresholds a usage m s)) = notifications s @ [memory_alert]))"
  by (simp add: check_thresholds_def notify_def true_div_def Let_def cpu_alert_def memory_alert_def)

theorem cpu_threshold_hysteresis_witness:
  "\<not> cpu_notified (init_monitor 1 (counters_at 0) 0) \<and> (75::rat) \<le> 80 \<and> (80::rat) \<le> 85 \<and>
   notifications (fst (check_thresholds True [95] 80 (init_monitor 1 (counters_at 0) 0)))
     = [cpu_alert] \<and>
   cpu_notified ((init_monitor 1 (counters_at 0) 0)\<lparr>cpu_notified := True\<rparr>) \<and>
   [65::rat] \<noteq> [] \<and> sum_list [65::rat] / of_nat (length [65::rat]) < 70 \<and>
   \<not> cpu_notified (fst (check_thresholds True [65] 80
        ((init_monitor 1 (counters_at 0) 0)\<lparr>cpu_notified := True\<rparr>)))"
proof -
  have h1: "\<not> cpu_notified (init_monitor 1 (counters_at 0) 0) \<and> (75::rat) \<le> 80 \<and> (80::rat) \<le> 85"
    by (simp add: init_monitor_def)
  have h2: "cpu_notified ((init_monitor 1 (counters_at 0) 0)\<lparr>cpu_notified := True\<rparr>) \<and>
      [65::rat] \<noteq> [] \<and> sum_list [65::rat] / of_nat (length [65::rat]) < 70"
    by simp
  have n: "notifications (init_monitor 1 (counters_at 0) 0) = []"
    by (simp add: init_monitor_def)
  have a: "notifications (fst (check_thresholds True [95] 80 (init_monitor 1 (counters_at 0) 0)))
     = [cpu_alert]"
    using h1 n cpu_threshold_hysteresis [of "init_monitor 1 (counters_at 0) 0" 80 "[]" True]
    by (simp add: Let_def)
  have b: "\<not> cpu_notified (fst (check_thresholds True [65] 80
        ((init_monitor 1 (counters_at 0) 0)\<lparr>cpu_notified := True\<rparr>)))"
    using h2 cpu_threshold_hysteresis
      [of "(init_monitor 1 (counters_at 0) 0)\<lparr>cpu_notified := True\<rparr>" 80 "[65]" True]
    by blast
  from h1 h2 a b show ?thesis by blast
qed

text \<open>
  The run on a fresh monitor: the log holds the one alert of the first value after each
  of the four values; the return to the normal state at 65 adds no entry.
\<close>

theorem clearing_emits_no_event:
  "(let s0 = init_monitor 1 (counters_at 0) 0;
        s1 = fst (check_thresholds True [95] 80 s0);
        s2 = fst (check_thresholds True [85] 80 s1);
        s3 = fst (check_thresholds True [75] 80 s2);
        s4 = fst (check_thresholds True [65] 80 s3)
    in notifications s0 = [] \<and> notifications s1 = [cpu_alert] \<and>
       notifications s2 = [cpu_alert] \<and> notifications s3 = [cpu_alert] \<and>
       notifications s4 = [cpu_alert] \<and>
       cpu_notified s3 \<and> \<not> cpu_notified s4)"
  by (simp add: check_thresholds_def notify_def true_div_def Let_def init_monitor_def)

subsection \<open>Reset and settings\<close>

lemma cpu_loop_fresh:
  assumes "i + length us = length hs"
    and "\<forall>j < length hs. length (hs ! j) = (if j < i then 1 else 0)"
  shows "\<forall>h \<in> set (fst (cpu_loop i us hs)). length h = 1"
  using assms
proof (induction us arbitrary: i hs)
  case Nil
  then show ?case by (auto simp add: in_set_conv_nth)
next
  case (Cons u us)
  from Cons.prems have i: "i < length hs" by simp
  with Cons.prems(2) have "length (hs ! i) = (if i < i then 1 else 0)" by blast
  then have e: "hs ! i = []" by simp
  let ?hs = "hs[i := push (hs ! i) u]"
  have inv: "\<forall>j < length ?hs. length (?hs ! j) = (if j < Suc i then 1 else 0)"
    using Cons.prems e by (auto simp add: nth_list_update push_def MAX_HISTORY_def less_Suc_eq)
  have len: "Suc i + length us = length ?hs"
    using Cons.prems by simp
  have "\<forall>h \<in> set (fst (cpu_loop (Suc i) us ?hs)). length h = 1"
    using len inv by (rule Cons.IH)
  with i show ?case by simp
qed

lemma push_empty: "push [] v = [v]"
  by (simp add: push_def MAX_HISTORY_def)

text \<open>
  C8. After \<^verbatim>\<open>reset_graphs\<close> every series (one per core, memory, network send and
  receive, time points) has length 0, and a push into any of them gives a series of
  length 1; so does the next completed pass of the update loop, for all of them at once.
\<close>

theorem reset_graphs_empties_every_series:
  "series_lengths (reset_graphs k s) = replicate (k + 4) 0 \<and>
   length (cpu_history (reset_graphs k s)) = k \<and>
   map (\<lambda>h. length (push h v)) (cpu_history (reset_graphs k s)) = replicate k 1 \<and>
   length (push (memory_history (reset_graphs k s)) v) = 1 \<and>
   length (push (network_sent_history (reset_graphs k s)) v) = 1 \<and>
   length (push (network_recv_history (reset_graphs k s)) v) = 1 \<and>
   length (push (time_points (reset_graphs k s)) t) = 1 \<and>
   (length (cpu_usage r) = k \<and> snd (vitalviz_try a r (reset_graphs k s)) = None \<longrightarrow>
      series_lengths (vitalviz_tick a r (reset_graphs k s)) = replicate (k + 4) 1)"
proof -
  let ?s = "reset_graphs k s"
  have flds: "cpu_history ?s = replicate k []" "memory_history ?s = []"
    "network_sent_history ?s = []" "network_recv_history ?s = []" "time_points ?s = []"
    by (simp_all add: reset_graphs_def)
  have four: "replicate (k + 4) c = replicate k c @ [c, c, c, c]" for c :: nat
  proof -
    have "replicate (k + 4) c = replicate k c @ replicate 4 c"
      by (rule replicate_add)
    moreover have "replicate 4 c = [c, c, c, c]"
      by (simp add: numeral_eq_Suc)
    ultimately show ?thesis by simp
  qed
  have empty: "series_lengths ?s = replicate (k + 4) 0"
    using flds by (simp add: series_lengths_def four)
  have cores: "length (cpu_history ?s) = k"
    using flds by simp
  have single: "map (\<lambda>h. length (push h v)) (cpu_history ?s) = replicate k 1"
    using flds by (simp add: push_empty)
  have others: "length (push (memory_history ?s) v) = 1 \<and>
      length (push (network_sent_history ?s) v) = 1 \<and>
      length (push (network_recv_history ?s) v) = 1 \<and>
      length (push (time_points ?s) t) = 1"
    using flds by (simp add: push_empty)
  have tick: "length (cpu_usage r) = k \<and> snd (vitalviz_try a r ?s) = None \<longrightarrow>
      series_lengths (vitalviz_tick a r ?s) = replicate (k + 4) 1"
  proof
    assume h: "length (cpu_usage r) = k \<and> snd (vitalviz_try a r ?s) = None"
    then obtain s' x y where sh: "sample_histories r ?s = (s', Inr (x, y))"
      and same: "network_sent_history (vitalviz_tick a r ?s) = network_sent_history s'"
        "network_recv_history (vitalviz_tick a r ?s) = network_recv_history s'"
        "memory_history (vitalviz_tick a r ?s) = memory_history s'"
        "time_points (vitalviz_tick a r ?s) = time_points s'"
        "cpu_history (vitalviz_tick a r ?s) = cpu_history s'"
      using vitalviz_try_completed [of a r ?s] by blast
    have cpu1: "\<forall>n \<in> set (map length (cpu_history s')). n = 1"
      using cpu_loop_fresh [of 0 "cpu_usage r" "replicate k []"] h
        sample_histories_Inr(8) [OF sh] flds by simp
    have cpu2: "length (map length (cpu_history s')) = k"
      using sample_histories_Inr(8) [OF sh] flds cpu_loop_length [of 0 "cpu_usage r" "replicate k []"]
      by simp
    have cpu: "map length (cpu_history s') = replicate k 1"
      using cpu2 cpu1 by (auto intro: replicate_eqI)
    have rest: "length (memory_history s') = 1" "length (time_points s') = 1"
      "length (network_sent_history s') = 1" "length (network_recv_history s') = 1"
      using sample_histories_Inr(4-7) [OF sh] flds by (simp_all add: push_empty MAX_HISTORY_def)
    show "series_lengths (vitalviz_tick a r ?s) = replicate (k + 4) 1"
      using cpu rest same by (simp add: series_lengths_def four)
  qed
  from empty cores single others tick show ?thesis by blast
qed

theorem reset_graphs_empties_every_series_witness:
  "series_lengths (reset_graphs 1 ((init_monitor 1 (counters_at 1000) 0)\<lparr>memory_history := [40, 50]\<rparr>))
     = [0, 0, 0, 0, 0] \<and>
   length (cpu_usage (reading_at 1 3000)) = 1 \<and>
   snd (vitalviz_try True (reading_at 1 3000)
     (reset_graphs 1 ((init_monitor 1 (counters_at 1000) 0)\<lparr>memory_history := [40, 50]\<rparr>))) = None \<and>
   series_lengths (vitalviz_tick True (reading_at 1 3000)
     (reset_graphs 1 ((init_monitor 1 (counters_at 1000) 0)\<lparr>memory_history := [40, 50]\<rparr>)))
     = [1, 1, 1, 1, 1]"
proof -
  have h: "length (cpu_usage (reading_at 1 3000)) = 1 \<and>
      snd (vitalviz_try True (reading_at 1 3000)
        (reset_graphs 1 ((init_monitor 1 (counters_at 1000) 0)\<lparr>memory_history := [40, 50]\<rparr>)))
      = None"
    by (simp add: vitalviz_try_def sample_histories_def init_monitor_def push_def
        push_network_def MAX_HISTORY_def check_thresholds_def notify_def Let_def true_div_def
        counters_at_def reading_at_def reset_graphs_def)
  have r: "replicate (1 + 4) c = [c, c, c, c, c]" for c :: nat
    by (simp add: numeral_eq_Suc)
  show ?thesis
    using h reset_graphs_empties_every_series
      [of 1 "(init_monitor 1 (counters_at 1000) 0)\<lparr>memory_history := [40, 50]\<rparr>" _ _
          "reading_at 1 3000" True]
    by (simp only: r)
qed

text \<open>
  C6, as the code has it. Saving the settings stores the new history length in
  \<^verbatim>\<open>max_history\<close> and leaves every series as it was: nothing is truncated.
\<close>

theorem save_settings_keeps_series:
  "max_history (save_settings theme interval history notif s) = history \<and>
   cpu_history (save_settings theme interval history notif s) = cpu_history s \<and>
   memory_history (save_settings theme interval history notif s) = memory_history s \<and>
   network_sent_history (save_settings theme interval history notif s) = network_sent_history s \<and>
   network_recv_history (save_settings theme interval history notif s) = network_recv_history s \<and>
   time_points (save_settings theme interval history notif s) = time_points s"
  by (simp add: save_settings_def)

text \<open>
  A memory history of three values still has three values after the history length
  has been set to 2.
\<close>

theorem save_settings_does_not_truncate:
  "memory_history
     (save_settings ''dark'' 1 2 True
        ((init_monitor 1 (counters_at 0) 0)\<lparr>memory_history := [40, 50, 60]\<rparr>)) = [40, 50, 60] \<and>
   \<not> int (length (memory_history
     (save_settings ''dark'' 1 2 True
        ((init_monitor 1 (counters_at 0) 0)\<lparr>memory_history := [40, 50, 60]\<rparr>)))) \<le> 2"
  by (simp add: save_settings_def init_monitor_def)

subsection \<open>The two network histories\<close>

lemma sample_histories_aligned:
  assumes "length (network_sent_history s) = length (network_recv_history s)"
  shows "length (network_sent_history (fst (sample_histories r s))) =
         length (network_recv_history (fst (sample_histories r s)))"
proof -
  obtain s' res where sh: "sample_histories r s = (s', res)"
    by (cases "sample_histories r s")
  show ?thesis
  proof (cases res)
    case (Inl e)
    with sh assms sample_histories_Inl(1,2) [of r s s' e] show ?thesis by simp
  next
    case (Inr xy)
    obtain x y where "xy = (x, y)" by (cases xy)
    with Inr sh have sh': "sample_histories r s = (s', Inr (x, y))" by simp
    show ?thesis
      using sh' assms sample_histories_Inr(4,5) [OF sh'] by simp
  qed
qed

lemma gui_update_data_aligned:
  "length (network_sent_history s) = length (network_recv_history s) \<Longrightarrow>
   length (network_sent_history (fst (gui_update_data rs s))) =
   length (network_recv_history (fst (gui_update_data rs s)))"
proof (induction rs arbitrary: s)
  case Nil
  then show ?case by simp
next
  case (Cons r rs)
  obtain s' e where t: "gui_tick r s = (s', e)" by (cases "gui_tick r s")
  have al: "length (network_sent_history s') = length (network_recv_history s')"
    using t gui_tick_network [of r s] sample_histories_aligned [OF Cons.prems, of r] by simp
  show ?case
  proof (cases e)
    case None
    with t Cons.IH [OF al] show ?thesis by simp
  next
    case (Some x)
    with t al show ?thesis by simp
  qed
qed

lemma vitalviz_update_data_aligned:
  "length (network_sent_history s) = length (network_recv_history s) \<Longrightarrow>
   length (network_sent_history (vitalviz_update_data a rs s)) =
   length (network_recv_history (vitalviz_update_data a rs s))"
proof (induction rs arbitrary: s)
  case Nil
  then show ?case by simp
next
  case (Cons r rs)
  have "length (network_sent_history (vitalviz_tick a r s)) =
        length (network_recv_history (vitalviz_tick a r s))"
    using vitalviz_tick_network [of a r s] sample_histories_aligned [OF Cons.prems, of r] by simp
  then show ?case using Cons.IH by simp
qed

text \<open>
  C9. The send and receive histories have the same length after every pass of either
  GUI loop: a pass keeps equal lengths equal, whether it completes or raises, and they
  are equal in the initial state, so they are equal after any run. A completed pass
  has pushed exactly one value on each, trimming both on the length of the send
  history.
\<close>

theorem network_histories_same_length:
  "(length (network_sent_history s) = length (network_recv_history s) \<longrightarrow>
      length (network_sent_history (fst (gui_tick r s))) =
        length (network_recv_history (fst (gui_tick r s))) \<and>
      length (network_sent_history (vitalviz_tick a r s)) =
        length (network_recv_history (vitalviz_tick a r s))) \<and>
   length (network_sent_history (fst (gui_update_data rs (init_monitor n net t)))) =
     length (network_recv_history (fst (gui_update_data rs (init_monitor n net t)))) \<and>
   length (network_sent_history (vitalviz_update_data a rs (init_monitor n net t))) =
     length (network_recv_history (vitalviz_update_data a rs (init_monitor n net t))) \<and>
   (length (network_sent_history s) = length (network_recv_history s) \<and>
    snd (vitalviz_try a r s) = None \<longrightarrow>
      (\<exists>x y. network_sent_history (vitalviz_tick a r s) = push (network_sent_history s) x \<and>
             network_recv_history (vitalviz_tick a r s) = push (network_recv_history s) y)) \<and>
   (length (network_sent_history s) = length (network_recv_history s) \<and>
    snd (gui_tick r s) = None \<longrightarrow>
      (\<exists>x y. network_sent_history (fst (gui_tick r s)) = push (network_sent_history s) x \<and>
             network_recv_history (fst (gui_tick r s)) = push (network_recv_history s) y))"
proof -
  have init: "length (network_sent_history (init_monitor n net t)) =
      length (network_recv_history (init_monitor n net t))"
    by (simp add: init_monitor_def)
  have step: "length (network_sent_history s) = length (network_recv_history s) \<longrightarrow>
      length (network_sent_history (fst (gui_tick r s))) =
        length (network_recv_history (fst (gui_tick r s))) \<and>
      length (network_sent_history (vitalviz_tick a r s)) =
        length (network_recv_history (vitalviz_tick a r s))"
    using gui_tick_network [of r s] vitalviz_tick_network [of a r s]
      sample_histories_aligned [of s r] by simp
  have gui: "length (network_sent_history (fst (gui_update_data rs (init_monitor n net t)))) =
      length (network_recv_history (fst (gui_update_data rs (init_monitor n net t))))"
    using init by (rule gui_update_data_aligned)
  have vit: "length (network_sent_history (vitalviz_update_data a rs (init_monitor n net t))) =
      length (network_recv_history (vitalviz_update_data a rs (init_monitor n net t)))"
    using init by (rule vitalviz_update_data_aligned)
  have one_v: "length (network_sent_history s) = length (network_recv_history s) \<and>
      snd (vitalviz_try a r s) = None \<longrightarrow>
      (\<exists>x y. network_sent_history (vitalviz_tick a r s) = push (network_sent_history s) x \<and>
             network_recv_history (vitalviz_tick a r s) = push (network_recv_history s) y)"
  proof
    assume h: "length (network_sent_history s) = length (network_recv_history s) \<and>
      snd (vitalviz_try a r s) = None"
    then obtain s' x y where sh: "sample_histories r s = (s', Inr (x, y))"
      and same: "network_sent_history (vitalviz_tick a r s) = network_sent_history s'"
        "network_recv_history (vitalviz_tick a r s) = network_recv_history s'"
      using vitalviz_try_completed [of a r s] by blast
    have "network_sent_history s' = push (network_sent_history s) x \<and>
        network_recv_history s' = push (network_recv_history s) y"
      using sample_histories_Inr(4,5) [OF sh] h by (simp add: push_def)
    with same show "\<exists>x y. network_sent_history (vitalviz_tick a r s) = push (network_sent_history s) x \<and>
             network_recv_history (vitalviz_tick a r s) = push (network_recv_history s) y"
      by auto
  qed
  have one_g: "length (network_sent_history s) = length (network_recv_history s) \<and>
      snd (gui_tick r s) = None \<longrightarrow>
      (\<exists>x y. network_sent_history (fst (gui_tick r s)) = push (network_sent_history s) x \<and>
             network_recv_history (fst (gui_tick r s)) = push (network_recv_history s) y)"
  proof
    assume h: "length (network_sent_history s) = length (network_recv_history s) \<and>
      snd (gui_tick r s) = None"
    then obtain s' x y where sh: "sample_histories r s = (s', Inr (x, y))"
      using gui_tick_completed [of r s] by blast
    have "network_sent_history s' = push (network_sent_history s) x \<and>
        network_recv_history s' = push (network_recv_history s) y"
      using sample_histories_Inr(4,5) [OF sh] h by (simp add: push_def)
    with sh gui_tick_network [of r s]
    show "\<exists>x y. network_sent_history (fst (gui_tick r s)) = push (network_sent_history s) x \<and>
             network_recv_history (fst (gui_tick r s)) = push (network_recv_history s) y"
      by auto
  qed
  from step gui vit one_v one_g show ?thesis by blast
qed

theorem network_histories_same_length_witness:
  "length (network_sent_history (init_monitor 1 (counters_at 1000) 0)) =
     length (network_recv_history (init_monitor 1 (counters_at 1000) 0)) \<and>
   snd (vitalviz_try True (reading_at 1 3000) (init_monitor 1 (counters_at 1000) 0)) = None \<and>
   snd (gui_tick (reading_at 1 3000) (init_monitor 1 (counters_at 1000) 0)) = None \<and>
   length (network_sent_history
      (fst (gui_tick (reading_at 1 3000) (init_monitor 1 (counters_at 1000) 0)))) =
     length (network_recv_history
      (fst (gui_tick (reading_at 1 3000) (init_monitor 1 (counters_at 1000) 0)))) \<and>
   length (network_sent_history
      (vitalviz_tick True (reading_at 1 3000) (init_monitor 1 (counters_at 1000) 0))) =
     length (network_recv_history
      (vitalviz_tick True (reading_at 1 3000) (init_monitor 1 (counters_at 1000) 0)))"
proof -
  have h: "length (network_sent_history (init_monitor 1 (counters_at 1000) 0)) =
      length (network_recv_history (init_monitor 1 (counters_at 1000) 0)) \<and>
      snd (vitalviz_try True (reading_at 1 3000) (init_monitor 1 (counters_at 1000) 0)) = None \<and>
      snd (gui_tick (reading_at 1 3000) (init_monitor 1 (counters_at 1000) 0)) = None"
    by (simp add: vitalviz_try_def gui_tick_def sample_histories_def init_monitor_def push_def
        push_network_def MAX_HISTORY_def check_thresholds_def notify_def Let_def true_div_def
        counters_at_def reading_at_def)
  show ?thesis
    using h network_histories_same_length
      [of "init_monitor 1 (counters_at 1000) 0" "reading_at 1 3000" True]
    by blast
qed

end
